theory Spec2Isabelle
  imports Main
begin

section \<open>The C++ notions the header relies on\<close>

text \<open>
  Objects live at locations. A reference \<open>T&\<close> always designates an object, so it is a
  location; a pointer \<open>T*\<close> is either \<open>nullptr\<close> or the address of a location. The
  template parameter \<open>T\<close> is the type parameter \<open>'T\<close>; it is carried by the types of
  references, pointers and wrappers only, as in the header, which never touches a value of
  type \<open>T\<close>. \<open>const T\<close> is \<open>'T const_q\<close>.
\<close>

type_synonym loc = nat

datatype 'T const_q = Const_q 'T

datatype 'T reference = Ref loc

datatype 'T pointer = nullptr | Address loc

text \<open>\<open>std::addressof(reference)\<close>.\<close>

fun addressof :: "'T reference \<Rightarrow> 'T pointer" where
  "addressof (Ref a) = Address a"

text \<open>The contextual conversion of a pointer to \<open>bool\<close> (\<open>return m_ptr;\<close>, \<open>!m_ptr\<close>).\<close>

fun to_bool :: "'T pointer \<Rightarrow> bool" where
  "to_bool nullptr = False"
| "to_bool (Address a) = True"

text \<open>Binding an lvalue of type \<open>T\<close> to a parameter of type \<open>const T&\<close>.\<close>

fun as_const :: "'T reference \<Rightarrow> 'T const_q reference" where
  "as_const (Ref a) = Ref a"

text \<open>
  What a call can do: return, throw, stop at a failed \<open>assert\<close>, or have no defined
  behaviour (the indirection \<open>*m_ptr\<close> through a null pointer).
\<close>

datatype exception_t = bad_optional_reference_access

fun what :: "exception_t \<Rightarrow> string" where
  "what bad_optional_reference_access = ''bad optional reference access''"

datatype 'r outcome = Returns 'r | Throws exception_t | Assert_fails | Undefined

text \<open>The indirection \<open>*p\<close>.\<close>

fun deref :: "'T pointer \<Rightarrow> 'T reference outcome" where
  "deref nullptr = Undefined"
| "deref (Address a) = Returns (Ref a)"

text \<open>
  The macro \<open>assert(c)\<close> of \<open><cassert>\<close>, followed by the rest of the function body:
  it expands to nothing when \<open>NDEBUG\<close> is defined.
\<close>

definition assert_macro :: "bool \<Rightarrow> bool \<Rightarrow> 'r outcome \<Rightarrow> 'r outcome" where
  "assert_macro ndebug c rest = (if ndebug then rest else if c then rest else Assert_fails)"

section \<open>The header \<open>optional_reference.hpp\<close>\<close>

datatype nullref_t = nullref

record 'T optional_reference =
  m_ptr :: "'T pointer"

subsection \<open>Constructors\<close>

definition optional_reference_default :: "'T optional_reference" where
  "optional_reference_default = \<lparr>m_ptr = nullptr\<rparr>"

definition optional_reference_nullref :: "nullref_t \<Rightarrow> 'T optional_reference" where
  "optional_reference_nullref n = \<lparr>m_ptr = nullptr\<rparr>"

definition optional_reference_ref :: "'T reference \<Rightarrow> 'T optional_reference" where
  "optional_reference_ref reference = \<lparr>m_ptr = addressof reference\<rparr>"

definition optional_reference_ptr :: "'T pointer \<Rightarrow> 'T optional_reference" where
  "optional_reference_ptr reference = \<lparr>m_ptr = reference\<rparr>"

subsection \<open>Observers\<close>

definition operator_bool :: "'T optional_reference \<Rightarrow> bool" where
  "operator_bool w = to_bool (m_ptr w)"

definition has_ref :: "'T optional_reference \<Rightarrow> bool" where
  "has_ref w = to_bool (m_ptr w)"

definition operator_star :: "bool \<Rightarrow> 'T optional_reference \<Rightarrow> 'T reference outcome" where
  "operator_star ndebug w = assert_macro ndebug (to_bool (m_ptr w)) (deref (m_ptr w))"

definition ref :: "'T optional_reference \<Rightarrow> 'T reference outcome" where
  "ref w = (if \<not> to_bool (m_ptr w) then Throws bad_optional_reference_access
            else deref (m_ptr w))"

definition operator_arrow :: "bool \<Rightarrow> 'T optional_reference \<Rightarrow> 'T pointer outcome" where
  "operator_arrow ndebug w = assert_macro ndebug (to_bool (m_ptr w)) (Returns (m_ptr w))"

definition ptr :: "'T optional_reference \<Rightarrow> 'T pointer" where
  "ptr w = m_ptr w"

subsection \<open>Modifier\<close>

definition reset :: "'T optional_reference \<Rightarrow> 'T optional_reference" where
  "reset w = w\<lparr>m_ptr := nullptr\<rparr>"

subsection \<open>Const conversion operator\<close>

text \<open>
  The body is \<open>return optional_reference<const T>(this);\<close>: the argument handed to the
  constructor is \<open>this\<close>, the address of the wrapper object itself, of type
  \<open>const optional_reference<T>*\<close>, and the member \<open>m_ptr\<close> is not read. No constructor
  of \<open>optional_reference<const T>\<close> takes such a pointer, so for a \<open>T\<close> such as
  \<open>int\<close> a use of the operator does not compile and there is nothing to embed. At
  \<open>T = bool\<close> the expression is well-formed: the pointer converts to a temporary
  \<open>bool\<close> (\<open>true\<close>, as \<open>this\<close> is never null), the temporary binds to the parameter
  of the constructor from \<open>const bool&\<close>, and that constructor stores its address. The
  operator is embedded at this type; \<open>temporary\<close> is the location of the temporary.
\<close>

definition operator_optional_reference_const ::
    "loc \<Rightarrow> bool optional_reference \<Rightarrow> bool const_q optional_reference" where
  "operator_optional_reference_const temporary w = optional_reference_ref (Ref temporary)"

subsection \<open>Factory functions\<close>

definition opt_ref :: "'T reference \<Rightarrow> 'T optional_reference" where
  "opt_ref reference = optional_reference_ref reference"

definition opt_cref :: "'T const_q reference \<Rightarrow> 'T const_q optional_reference" where
  "opt_cref reference = optional_reference_ref reference"

subsection \<open>Member calls on a program state\<close>

text \<open>
  A member function is called on a wrapper object that is part of the state of the
  program, next to the objects the program holds. \<open>ref\<close> is a \<open>const\<close> member function
  and has no assignment in its body; \<open>reset\<close> assigns \<open>m_ptr\<close> of its object and returns
  nothing.
\<close>

record ('T, 'v) program_state =
  this_object :: "'T optional_reference"
  memory :: "loc \<rightharpoonup> 'v"

definition call_ref ::
    "('T, 'v) program_state \<Rightarrow> 'T reference outcome \<times> ('T, 'v) program_state" where
  "call_ref s = (ref (this_object s), s)"

definition call_reset :: "('T, 'v) program_state \<Rightarrow> unit outcome \<times> ('T, 'v) program_state" where
  "call_reset s = (Returns (), s\<lparr>this_object := reset (this_object s)\<rparr>)"

section \<open>The earlier, minimal version of the header\<close>

text \<open>
  The second source file declares the same class with the same single data member
  \<open>T* m_ptr\<close>, without the constructor from a raw pointer, the const conversion operator
  and \<open>ptr\<close>. Its assertions are written inside \<open>#ifndef NDEBUG\<close> ... \<open>#endif\<close>.
\<close>

text \<open>
  Its \<open>reset\<close> is declared \<open>const\<close> and its body assigns \<open>m_ptr\<close>, which is not
  declared \<open>mutable\<close>. An assignment to such a member inside a \<open>const\<close> member function
  is ill-formed: a call of the function does not compile and no wrapper comes out of it.
  \<open>assign_member\<close> is the assignment to a non-mutable data member in a member function
  that is \<open>const\<close>-qualified or not; \<open>after\<close> is the object with the member assigned.
\<close>

datatype 'r member_call = Ill_formed | Well_formed 'r

definition assign_member :: "bool \<Rightarrow> 'r \<Rightarrow> 'r member_call" where
  "assign_member const_qualified after =
     (if const_qualified then Ill_formed else Well_formed after)"

definition optional_reference_default_minimal :: "'T optional_reference" where
  "optional_reference_default_minimal = \<lparr>m_ptr = nullptr\<rparr>"

definition optional_reference_nullref_minimal :: "nullref_t \<Rightarrow> 'T optional_reference" where
  "optional_reference_nullref_minimal n = \<lparr>m_ptr = nullptr\<rparr>"

definition optional_reference_ref_minimal :: "'T reference \<Rightarrow> 'T optional_reference" where
  "optional_reference_ref_minimal reference = \<lparr>m_ptr = addressof reference\<rparr>"

definition operator_bool_minimal :: "'T optional_reference \<Rightarrow> bool" where
  "operator_bool_minimal w = to_bool (m_ptr w)"

definition has_ref_minimal :: "'T optional_reference \<Rightarrow> bool" where
  "has_ref_minimal w = to_bool (m_ptr w)"

definition operator_star_minimal ::
    "bool \<Rightarrow> 'T optional_reference \<Rightarrow> 'T reference outcome" where
  "operator_star_minimal ndebug w =
     (if \<not> ndebug then assert_macro ndebug (to_bool (m_ptr w)) (deref (m_ptr w))
      else deref (m_ptr w))"

definition ref_minimal :: "'T optional_reference \<Rightarrow> 'T reference outcome" where
  "ref_minimal w = (if \<not> to_bool (m_ptr w) then Throws bad_optional_reference_access
                    else deref (m_ptr w))"

definition operator_arrow_minimal ::
    "bool \<Rightarrow> 'T optional_reference \<Rightarrow> 'T pointer outcome" where
  "operator_arrow_minimal ndebug w =
     (if \<not> ndebug then assert_macro ndebug (to_bool (m_ptr w)) (Returns (m_ptr w))
      else Returns (m_ptr w))"

definition reset_minimal :: "'T optional_reference \<Rightarrow> 'T optional_reference member_call" where
  "reset_minimal w = assign_member True (w\<lparr>m_ptr := nullptr\<rparr>)"

definition opt_ref_minimal :: "'T reference \<Rightarrow> 'T optional_reference" where
  "opt_ref_minimal reference = optional_reference_ref_minimal reference"

definition opt_cref_minimal :: "'T const_q reference \<Rightarrow> 'T const_q optional_reference" where
  "opt_cref_minimal reference = optional_reference_ref_minimal reference"

section \<open>Basic facts\<close>

lemma to_bool_iff: "to_bool p = (p \<noteq> nullptr)"
  by (cases p) simp_all

lemma deref_addressof: "deref (addressof r) = Returns r"
  by (cases r) simp

lemma to_bool_addressof: "to_bool (addressof r)"
  by (cases r) simp

lemma deref_present: "to_bool p \<Longrightarrow> \<exists>r. deref p = Returns r \<and> addressof r = p"
  by (cases p) simp_all

lemma ref_throws_iff: "(ref w = Throws e) = (\<not> has_ref w)"
  by (cases "m_ptr w"; cases e) (simp_all add: ref_def has_ref_def)

text \<open>The unchecked accessors never throw: on an absent wrapper the outcome is a failed
  assertion in a debug build, and in a release build undefined behaviour for \<open>operator*\<close>
  and the null pointer for \<open>operator->\<close>.\<close>

lemma unchecked_access_never_throws:
  "operator_star ndebug w \<noteq> Throws e \<and> operator_arrow ndebug w \<noteq> Throws e"
  by (cases "m_ptr w") (simp_all add: operator_star_def operator_arrow_def assert_macro_def)

lemma unchecked_access_when_absent:
  "operator_star False optional_reference_default = Assert_fails
   \<and> operator_arrow False optional_reference_default = Assert_fails
   \<and> operator_star True optional_reference_default = Undefined
   \<and> operator_arrow True optional_reference_default = Returns nullptr"
  by (simp add: operator_star_def operator_arrow_def assert_macro_def
      optional_reference_default_def)

section \<open>Construction of absent wrappers\<close>

text \<open>
  Claim C9. A default-constructed wrapper and a wrapper constructed from the absent-marker
  \<open>nullref\<close> both report absent: \<open>has_ref()\<close> is false and so is the conversion to
  \<open>bool\<close>.
\<close>

theorem absent_constructors_report_absent:
  "has_ref (optional_reference_default :: 'T optional_reference) = False
   \<and> operator_bool (optional_reference_default :: 'T optional_reference) = False
   \<and> has_ref (optional_reference_nullref nullref :: 'T optional_reference) = False
   \<and> operator_bool (optional_reference_nullref nullref :: 'T optional_reference) = False"
  by (simp add: has_ref_def operator_bool_def optional_reference_default_def
      optional_reference_nullref_def)

text \<open>
  Claim C6. For every raw address \<open>p\<close>, the null address included, a wrapper
  constructed from \<open>p\<close> reports present exactly when \<open>p\<close> is not null.
\<close>

theorem raw_pointer_presence:
  "has_ref (optional_reference_ptr p) = (p \<noteq> nullptr)"
  by (simp add: has_ref_def optional_reference_ptr_def to_bool_iff)

section \<open>Construction from a reference and access\<close>

text \<open>
  Claim C3. For every object \<open>x\<close>, a wrapper constructed from a reference to \<open>x\<close>
  reports present, and checked access \<open>ref()\<close> and unchecked access \<open>operator*\<close>, in a
  debug build as in a release build, both return the reference \<open>x\<close> itself, whose address
  is the one stored. The constructor is a total function: it cannot fail.
\<close>

theorem wrapper_from_reference_is_present_and_yields_it:
  "has_ref (optional_reference_ref x)
   \<and> ref (optional_reference_ref x) = Returns x
   \<and> operator_star ndebug (optional_reference_ref x) = Returns x
   \<and> m_ptr (optional_reference_ref x) = addressof x"
  by (simp add: has_ref_def ref_def operator_star_def assert_macro_def
      optional_reference_ref_def to_bool_addressof deref_addressof)

text \<open>
  Claim C10. \<open>ptr()\<close> gives back what the wrapper was constructed from: the raw address
  \<open>p\<close>, null or not, for a wrapper constructed from \<open>p\<close>, and the address of \<open>x\<close> for a
  wrapper constructed from a reference to \<open>x\<close>. \<open>ptr\<close> returns a plain pointer: it checks
  nothing and has no failing outcome.
\<close>

theorem ptr_round_trip:
  "ptr (optional_reference_ptr p) = p
   \<and> ptr (optional_reference_ref x) = addressof x"
  by (simp add: ptr_def optional_reference_ptr_def optional_reference_ref_def)

text \<open>
  Claim C8. When the wrapper is present, \<open>operator*\<close> returns the referenced object (a
  reference whose address is the stored one) and \<open>operator->\<close> returns that address; the
  condition of the internal assertion holds, so that neither a failed assertion, nor an
  exception, nor undefined behaviour is the outcome, whether \<open>NDEBUG\<close> is defined or not.
\<close>

theorem unchecked_access_when_present:
  assumes "has_ref w"
  shows "(\<exists>r. operator_star ndebug w = Returns r \<and> addressof r = ptr w)
         \<and> operator_arrow ndebug w = Returns (ptr w)
         \<and> to_bool (m_ptr w)"
proof -
  from assms have present: "to_bool (m_ptr w)"
    by (simp add: has_ref_def)
  then obtain r where "deref (m_ptr w) = Returns r" and "addressof r = m_ptr w"
    using deref_present by blast
  with present show ?thesis
    by (simp add: operator_star_def operator_arrow_def assert_macro_def ptr_def)
qed

theorem unchecked_access_when_present_witness:
  "has_ref (optional_reference_ref (Ref 5 :: nat reference))
   \<and> (\<exists>r. operator_star False (optional_reference_ref (Ref 5 :: nat reference)) = Returns r
         \<and> addressof r = ptr (optional_reference_ref (Ref 5 :: nat reference)))
   \<and> operator_arrow False (optional_reference_ref (Ref 5 :: nat reference))
       = Returns (ptr (optional_reference_ref (Ref 5 :: nat reference)))
   \<and> to_bool (m_ptr (optional_reference_ref (Ref 5 :: nat reference)))"
proof -
  have h: "has_ref (optional_reference_ref (Ref 5 :: nat reference))"
    by (simp add: has_ref_def optional_reference_ref_def)
  show ?thesis
    using h unchecked_access_when_present [OF h, of False] by simp
qed

section \<open>Checked access\<close>

text \<open>
  Claim C2. Calling \<open>ref()\<close> raises \<open>bad_optional_reference_access\<close> if and only if the
  wrapper is absent; the call leaves the state of the program, the stored address of the
  wrapper included, as it was (whether it raises or not).
\<close>

theorem ref_throws_iff_absent:
  "(ref w = Throws bad_optional_reference_access) = (\<not> has_ref w)
   \<and> (fst (call_ref s) = Throws bad_optional_reference_access) = (\<not> has_ref (this_object s))
   \<and> snd (call_ref s) = s"
  by (simp add: call_ref_def ref_throws_iff)

section \<open>Reset\<close>

text \<open>
  Claim C5. After \<open>reset()\<close> the wrapper reports absent, whatever it was before;
  \<open>reset()\<close> on a wrapper that is absent already changes nothing; \<open>reset()\<close> returns
  normally and touches nothing but its own wrapper.
\<close>

theorem reset_makes_absent:
  "has_ref (this_object (snd (call_reset s))) = False
   \<and> fst (call_reset s) = Returns ()
   \<and> memory (snd (call_reset s)) = memory s
   \<and> (\<not> has_ref (this_object s) \<longrightarrow> snd (call_reset s) = s)"
proof -
  have "reset (this_object s) = this_object s" if "\<not> has_ref (this_object s)"
    using that by (cases "m_ptr (this_object s)") (simp_all add: reset_def has_ref_def)
  then show ?thesis
    by (simp add: call_reset_def reset_def has_ref_def)
qed

theorem reset_makes_absent_witness:
  "\<not> has_ref (this_object
        (\<lparr>this_object = optional_reference_default, memory = Map.empty\<rparr>
           :: (nat, nat) program_state))
   \<and> snd (call_reset \<lparr>this_object = optional_reference_default, memory = Map.empty\<rparr>)
       = (\<lparr>this_object = optional_reference_default, memory = Map.empty\<rparr>
           :: (nat, nat) program_state)"
proof -
  have h: "\<not> has_ref (this_object
        (\<lparr>this_object = optional_reference_default, memory = Map.empty\<rparr>
           :: (nat, nat) program_state))"
    by (simp add: has_ref_def optional_reference_default_def)
  show ?thesis
    using h reset_makes_absent
      [of "\<lparr>this_object = optional_reference_default, memory = Map.empty\<rparr>
             :: (nat, nat) program_state"]
    by blast
qed

section \<open>Factory functions\<close>

text \<open>
  Claim C7. \<open>opt_ref(x)\<close> is the wrapper constructed directly from \<open>x\<close>, so every
  operation gives the same result on both. \<open>opt_cref\<close> yields a wrapper of the read-only
  variant \<open>optional_reference<const T>\<close> that is present and refers to \<open>x\<close>, for an \<open>x\<close>
  that is mutable (bound to \<open>const T&\<close> at the call) as for one that is \<open>const\<close> already.
  Both are total functions of their argument alone.
\<close>

theorem factories_build_the_wrapper:
  "opt_ref x = optional_reference_ref x
   \<and> has_ref (opt_ref x) = has_ref (optional_reference_ref x)
   \<and> ptr (opt_ref x) = ptr (optional_reference_ref x)
   \<and> ref (opt_ref x) = ref (optional_reference_ref x)
   \<and> operator_star ndebug (opt_ref x) = operator_star ndebug (optional_reference_ref x)
   \<and> operator_arrow ndebug (opt_ref x) = operator_arrow ndebug (optional_reference_ref x)
   \<and> reset (opt_ref x) = reset (optional_reference_ref x)
   \<and> has_ref (opt_cref c)
   \<and> ref (opt_cref c) = Returns c
   \<and> ptr (opt_cref c) = addressof c
   \<and> has_ref (opt_cref (as_const (Ref a :: 'T reference)) :: 'T const_q optional_reference)
   \<and> ref (opt_cref (as_const (Ref a :: 'T reference))) = Returns (Ref a)
   \<and> ptr (opt_cref (as_const (Ref a :: 'T reference))) = Address a
   \<and> ptr (opt_ref (Ref a :: 'T reference)) = Address a"
  by (simp add: opt_ref_def opt_cref_def has_ref_def ref_def ptr_def
      optional_reference_ref_def to_bool_addressof deref_addressof)

section \<open>The two versions of the class\<close>

text \<open>
  Apart from \<open>reset\<close>, every operation the two versions share (default construction,
  construction from \<open>nullref\<close> and from a reference, \<open>has_ref\<close>, \<open>operator bool\<close>,
  \<open>operator*\<close>, \<open>ref\<close>, \<open>operator->\<close> and the two factory functions) computes the
  same wrapper, the same presence, the same returned reference or pointer and the same
  outcome in both versions, for every input and in both build configurations.
\<close>

lemma shared_operations_agree_apart_from_reset:
  "(optional_reference_default :: 'T optional_reference) = optional_reference_default_minimal
   \<and> (optional_reference_nullref n :: 'T optional_reference)
       = optional_reference_nullref_minimal n
   \<and> optional_reference_ref x = optional_reference_ref_minimal x
   \<and> has_ref w = has_ref_minimal w
   \<and> operator_bool w = operator_bool_minimal w
   \<and> operator_star ndebug w = operator_star_minimal ndebug w
   \<and> ref w = ref_minimal w
   \<and> operator_arrow ndebug w = operator_arrow_minimal ndebug w
   \<and> opt_ref x = opt_ref_minimal x
   \<and> opt_cref c = opt_cref_minimal c"
  by (simp add: optional_reference_default_def optional_reference_default_minimal_def
      optional_reference_nullref_def optional_reference_nullref_minimal_def
      optional_reference_ref_def optional_reference_ref_minimal_def
      has_ref_def has_ref_minimal_def operator_bool_def operator_bool_minimal_def
      operator_star_def operator_star_minimal_def ref_def ref_minimal_def
      operator_arrow_def operator_arrow_minimal_def
      opt_ref_def opt_ref_minimal_def opt_cref_def opt_cref_minimal_def assert_macro_def)

text \<open>The \<open>reset\<close> of the minimal version is ill-formed on every wrapper.\<close>

lemma reset_minimal_ill_formed: "reset_minimal w = Ill_formed"
  by (simp add: reset_minimal_def assign_member_def)

text \<open>
  Claim C4. The two versions are to behave identically on every operation they share,
  \<open>reset\<close> included. They do not on \<open>reset\<close>: on a wrapper constructed from a reference
  to the object at location 5, the \<open>reset\<close> of the minimal version is ill-formed and
  yields no wrapper, while the \<open>reset\<close> of the extended version yields the absent
  wrapper.
\<close>

theorem minimal_reset_has_no_behaviour_where_extended_resets:
  "reset_minimal (optional_reference_ref_minimal (Ref 5 :: nat reference)) = Ill_formed
   \<and> reset (optional_reference_ref (Ref 5 :: nat reference)) = \<lparr>m_ptr = nullptr\<rparr>
   \<and> has_ref (reset (optional_reference_ref (Ref 5 :: nat reference))) = False"
  by (simp add: reset_minimal_def assign_member_def reset_def optional_reference_ref_def
      optional_reference_ref_minimal_def has_ref_def)

section \<open>The const conversion operator\<close>

text \<open>
  The wrapper the operator returns is built from the temporary that \<open>this\<close> converts
  to: it is present whatever the wrapper it is called on holds, and it holds the address of
  the temporary.
\<close>

lemma const_conversion_always_present:
  "has_ref (operator_optional_reference_const temporary w)
   \<and> ptr (operator_optional_reference_const temporary w) = Address temporary"
  by (simp add: operator_optional_reference_const_def optional_reference_ref_def has_ref_def
      ptr_def)

text \<open>
  Claim C1. The conversion to \<open>optional_reference<const T>\<close> is to report the same
  presence as the wrapper it converts. The code does not: a default-constructed
  \<open>optional_reference<bool>\<close> is absent, and its conversion (the temporary being at
  location 1) reports present.
\<close>

theorem const_conversion_of_absent_wrapper_reports_present:
  "has_ref (optional_reference_default :: bool optional_reference) = False
   \<and> has_ref (operator_optional_reference_const 1
        (optional_reference_default :: bool optional_reference)) = True"
  by (simp add: operator_optional_reference_const_def optional_reference_ref_def
      optional_reference_default_def has_ref_def)

end
